theory Spec2Isabelle
  imports Complex_Main "HOL-Library.Sublist"
begin

section \<open>JavaScript strings\<close>

text \<open>
  The service \<^verbatim>\<open>src/services/youtube.js\<close> works on JavaScript strings, which are
  sequences of UTF-16 code units. The model uses \<^typ>\<open>string\<close>; a \<^typ>\<open>char\<close> stands
  for the code unit with the same number, so the model covers the strings whose code
  units lie in 0..255 (Latin-1). That range is closed under \<^verbatim>\<open>toLowerCase\<close>. The
  registered sign U+00AE is \<open>CHR 0xAE\<close>; the trade mark sign U+2122 lies outside the
  range and cannot occur in a modelled string.
\<close>

definition isDigit :: "char \<Rightarrow> bool" where
  "isDigit c = (c \<in> set ''0123456789'')"

definition isUpperAZ :: "char \<Rightarrow> bool" where
  "isUpperAZ c = (c \<in> set ''ABCDEFGHIJKLMNOPQRSTUVWXYZ'')"

definition isLowerAZ :: "char \<Rightarrow> bool" where
  "isLowerAZ c = (c \<in> set ''abcdefghijklmnopqrstuvwxyz'')"

definition isAlnum :: "char \<Rightarrow> bool" where
  "isAlnum c = (isUpperAZ c \<or> isLowerAZ c \<or> isDigit c)"

text \<open>
  White space as \<^verbatim>\<open>\s\<close>, \<^verbatim>\<open>trim\<close> and \<^verbatim>\<open>parseInt\<close> see it: tab, line feed,
  vertical tab, form feed, carriage return, space and the no-break space.
\<close>

definition isWhiteSpace :: "char \<Rightarrow> bool" where
  "isWhiteSpace c = (c \<in> set [CHR 0x09, CHR 0x0A, CHR 0x0B, CHR 0x0C, CHR 0x0D, CHR 0x20, CHR 0xA0])"

text \<open>
  The letters with a case: the ASCII letters and the Latin-1 letters \<open>0xC0\<close> to \<open>0xDE\<close>
  (without the multiplication sign \<open>0xD7\<close>), whose lower case is 32 code units above.
\<close>

definition upperLetters :: "char list" where
  "upperLetters = ''ABCDEFGHIJKLMNOPQRSTUVWXYZ'' @
     [CHR 0xC0, CHR 0xC1, CHR 0xC2, CHR 0xC3, CHR 0xC4, CHR 0xC5, CHR 0xC6, CHR 0xC7,
      CHR 0xC8, CHR 0xC9, CHR 0xCA, CHR 0xCB, CHR 0xCC, CHR 0xCD, CHR 0xCE, CHR 0xCF,
      CHR 0xD0, CHR 0xD1, CHR 0xD2, CHR 0xD3, CHR 0xD4, CHR 0xD5, CHR 0xD6, CHR 0xD8,
      CHR 0xD9, CHR 0xDA, CHR 0xDB, CHR 0xDC, CHR 0xDD, CHR 0xDE]"

definition lowerLetters :: "char list" where
  "lowerLetters = ''abcdefghijklmnopqrstuvwxyz'' @
     [CHR 0xE0, CHR 0xE1, CHR 0xE2, CHR 0xE3, CHR 0xE4, CHR 0xE5, CHR 0xE6, CHR 0xE7,
      CHR 0xE8, CHR 0xE9, CHR 0xEA, CHR 0xEB, CHR 0xEC, CHR 0xED, CHR 0xEE, CHR 0xEF,
      CHR 0xF0, CHR 0xF1, CHR 0xF2, CHR 0xF3, CHR 0xF4, CHR 0xF5, CHR 0xF6, CHR 0xF8,
      CHR 0xF9, CHR 0xFA, CHR 0xFB, CHR 0xFC, CHR 0xFD, CHR 0xFE]"

text \<open>
  Bit 5 (value 32) is clear in every upper-case letter of the table and set in every
  lower-case one, so adding 32 sets the bit and subtracting 32 clears it.
\<close>

definition lowerChar :: "char \<Rightarrow> char" where
  "lowerChar c =
     (if c \<in> set upperLetters
      then (case c of Char b0 b1 b2 b3 b4 b5 b6 b7 \<Rightarrow> Char b0 b1 b2 b3 b4 True b6 b7)
      else c)"

definition toLowerCase :: "string \<Rightarrow> string" where
  "toLowerCase s = map lowerChar s"

text \<open>\<^verbatim>\<open>s.includes(k)\<close>: \<open>k\<close> occurs in \<open>s\<close> as a contiguous run.\<close>

fun includesStr :: "string \<Rightarrow> string \<Rightarrow> bool" where
  "includesStr [] k = (k = [])"
| "includesStr (c # cs) k = (prefix k (c # cs) \<or> includesStr cs k)"

definition trim :: "string \<Rightarrow> string" where
  "trim s = rev (dropWhile isWhiteSpace (rev (dropWhile isWhiteSpace s)))"

text \<open>\<^verbatim>\<open>s.split(c)\<close> with a one-character string separator.\<close>

fun splitOn :: "char \<Rightarrow> string \<Rightarrow> string list" where
  "splitOn sep [] = [[]]"
| "splitOn sep (c # cs) =
     (if c = sep then [] # splitOn sep cs
      else (case splitOn sep cs of [] \<Rightarrow> [[c]] | f # fs \<Rightarrow> (c # f) # fs))"

text \<open>
  \<^verbatim>\<open>s.split(/[...]+/)\<close>: the fields between maximal runs of separator characters.
  A leading or trailing run leaves an empty first or last field; the empty string
  splits into one empty field.
\<close>

function splitRegex :: "(char \<Rightarrow> bool) \<Rightarrow> string \<Rightarrow> string list" where
  "splitRegex sep s =
     (let field = takeWhile (\<lambda>c. \<not> sep c) s; rest = dropWhile (\<lambda>c. \<not> sep c) s
      in if rest = [] then [field] else field # splitRegex sep (dropWhile sep rest))"
  by pat_completeness auto
termination
proof (relation "measure (\<lambda>(sep, s). length s)")
  show "wf (measure (\<lambda>(sep, s). length s))" by simp
next
  fix sep :: "char \<Rightarrow> bool" and s field rest :: string
  assume r: "rest = dropWhile (\<lambda>c. \<not> sep c) s" and ne: "rest \<noteq> []"
  from ne obtain x xs where rx: "rest = x # xs" by (cases rest) auto
  from r rx have "sep x" by (metis dropWhile_eq_Cons_conv)
  then have "length (dropWhile sep rest) \<le> length xs"
    using rx length_dropWhile_le [of sep xs] by simp
  moreover have "length rest \<le> length s"
    using r by (simp add: length_dropWhile_le)
  ultimately show "((sep, dropWhile sep rest), (sep, s)) \<in> measure (\<lambda>(sep, s). length s)"
    using rx by simp
qed

declare splitRegex.simps [simp del]

text \<open>
  \<^verbatim>\<open>[...new Set(xs)]\<close>: each value once, in the order of first insertion.
\<close>

definition dedupe :: "string list \<Rightarrow> string list" where
  "dedupe xs = fold (\<lambda>x acc. if x \<in> set acc then acc else acc @ [x]) xs []"

section \<open>Regular expressions\<close>

text \<open>
  The backtracking search of the regular expression engine, in the style of the
  language definition: a matcher takes the input at the current position and a
  continuation, which receives the text just matched and the rest of the input and
  answers with the result of the whole remaining match or with failure (\<open>None\<close>). A
  matcher calls its continuation on its candidates in the order of the engine (a greedy
  repetition: longest first) and returns the first success.
\<close>

type_synonym 'r continuation = "string \<Rightarrow> string \<Rightarrow> 'r option"

type_synonym 'r matcher = "string \<Rightarrow> 'r continuation \<Rightarrow> 'r option"

definition oneOf :: "(char \<Rightarrow> bool) \<Rightarrow> 'r matcher" where
  "oneOf P s k = (case s of [] \<Rightarrow> None | c # r \<Rightarrow> if P c then k [c] r else None)"

fun tryLengths :: "nat list \<Rightarrow> 'r matcher" where
  "tryLengths [] s k = None"
| "tryLengths (n # ns) s k =
     (case k (take n s) (drop n s) of None \<Rightarrow> tryLengths ns s k | Some v \<Rightarrow> Some v)"

text \<open>A greedy repetition of a character class, at least \<open>n\<close> times.\<close>

definition greedy :: "nat \<Rightarrow> (char \<Rightarrow> bool) \<Rightarrow> 'r matcher" where
  "greedy n P s k = tryLengths (rev [n ..< Suc (length (takeWhile P s))]) s k"

definition optional :: "'r matcher \<Rightarrow> 'r matcher" where
  "optional m s k = (case m s k of None \<Rightarrow> k [] s | Some v \<Rightarrow> Some v)"

definition andThen :: "'r matcher \<Rightarrow> 'r matcher \<Rightarrow> 'r matcher" where
  "andThen a b s k = a s (\<lambda>x r. b r (\<lambda>y r'. k (x @ y) r'))"

fun alternatives :: "'r matcher list \<Rightarrow> 'r matcher" where
  "alternatives [] s k = None"
| "alternatives (m # ms) s k =
     (case m s k of None \<Rightarrow> alternatives ms s k | Some v \<Rightarrow> Some v)"

text \<open>
  The flag \<^verbatim>\<open>i\<close> compares canonical forms, the upper-case mapping of a single
  code unit. The Latin-1 letters whose upper case is not one Latin-1 code unit
  (\<open>0xB5\<close>, \<open>0xDF\<close>, \<open>0xFF\<close>) stay as they are: they equal no canonical form of an
  ASCII letter.
\<close>

definition canonicalize :: "char \<Rightarrow> char" where
  "canonicalize c =
     (if c \<in> set lowerLetters
      then (case c of Char b0 b1 b2 b3 b4 b5 b6 b7 \<Rightarrow> Char b0 b1 b2 b3 b4 False b6 b7)
      else c)"

definition literalCI :: "string \<Rightarrow> 'r matcher" where
  "literalCI w s k =
     (if length w \<le> length s \<and> map canonicalize (take (length w) s) = map canonicalize w
      then k (take (length w) s) (drop (length w) s) else None)"

text \<open>The first match of an unanchored pattern: start positions from left to right.\<close>

fun matchFirst :: "(string \<Rightarrow> 'a option) \<Rightarrow> string \<Rightarrow> 'a option" where
  "matchFirst pat [] = pat []"
| "matchFirst pat (c # cs) =
     (case pat (c # cs) of None \<Rightarrow> matchFirst pat cs | Some m \<Rightarrow> Some m)"

text \<open>
  \<^verbatim>\<open>s.match(/.../g)\<close>: all matches from left to right, each search starting where
  the last match ended, and one code unit further on after an empty match.
\<close>

function matchAll :: "(string \<times> string) matcher \<Rightarrow> string \<Rightarrow> string list" where
  "matchAll pat s =
     (case pat s (\<lambda>m r. Some (m, r)) of
        None \<Rightarrow> (if s = [] then [] else matchAll pat (tl s))
      | Some (m, r) \<Rightarrow>
          m # (if s = [] then []
               else matchAll pat (if length r < length s then r else tl s)))"
  by pat_completeness auto
termination
  by (relation "measure (\<lambda>(pat, s). length s)") auto

declare matchAll.simps [simp del]

text \<open>A test against a pattern anchored at both ends.\<close>

definition testAnchored :: "unit matcher \<Rightarrow> string \<Rightarrow> bool" where
  "testAnchored m s =
     (case m s (\<lambda>x r. if r = [] then Some () else None) of None \<Rightarrow> False | Some u \<Rightarrow> True)"

section \<open>Numbers of the timestamp arithmetic\<close>

text \<open>
  The numbers that \<^verbatim>\<open>parseInt\<close> and the timestamp arithmetic produce are integers
  or \<^verbatim>\<open>NaN\<close>. The model keeps the integers exact; JavaScript rounds an integer
  beyond \<open>2 ^ 53\<close> to the nearest double, which the model does not represent.
\<close>

datatype jsnum = NaN | Num int

fun js_add :: "jsnum \<Rightarrow> jsnum \<Rightarrow> jsnum" where
  "js_add (Num a) (Num b) = Num (a + b)"
| "js_add _ _ = NaN"

fun js_sub :: "jsnum \<Rightarrow> jsnum \<Rightarrow> jsnum" where
  "js_sub (Num a) (Num b) = Num (a - b)"
| "js_sub _ _ = NaN"

fun js_mul :: "jsnum \<Rightarrow> jsnum \<Rightarrow> jsnum" where
  "js_mul (Num a) (Num b) = Num (a * b)"
| "js_mul _ _ = NaN"

text \<open>Truthiness of a number: \<^verbatim>\<open>NaN\<close> and \<open>0\<close> are falsy.\<close>

fun truthyNum :: "jsnum \<Rightarrow> bool" where
  "truthyNum NaN = False"
| "truthyNum (Num n) = (n \<noteq> 0)"

fun js_gt :: "jsnum \<Rightarrow> int \<Rightarrow> bool" where
  "js_gt NaN k = False"
| "js_gt (Num n) k = (n > k)"

definition digitValue :: "char \<Rightarrow> int" where
  "digitValue c = (case map_of (zip ''0123456789'' [0, 1, 2, 3, 4, 5, 6, 7, 8, 9]) c of
                     None \<Rightarrow> 0 | Some d \<Rightarrow> d)"

definition digitsValue :: "string \<Rightarrow> int" where
  "digitsValue ds = foldl (\<lambda>a c. 10 * a + digitValue c) 0 ds"

text \<open>
  \<^verbatim>\<open>parseInt(s, 10)\<close>: leading white space is skipped, one sign is read, then the
  longest run of decimal digits; no digit gives \<^verbatim>\<open>NaN\<close>, and what follows the
  digits is ignored.
\<close>

definition parseInt10 :: "string \<Rightarrow> jsnum" where
  "parseInt10 s =
     (let t = dropWhile isWhiteSpace s;
          neg = (case t of [] \<Rightarrow> False | c # _ \<Rightarrow> c = CHR ''-'');
          u = (case t of [] \<Rightarrow> [] | c # r \<Rightarrow> if c = CHR ''-'' \<or> c = CHR ''+'' then r else t);
          z = takeWhile isDigit u
      in if z = [] then NaN else Num ((if neg then - 1 else 1) * digitsValue z))"

section \<open>TimestampParser: convertTimestampToSeconds\<close>

text \<open>
  The result \<open>None\<close> is \<^verbatim>\<open>null\<close>. The argument is a string; the empty string is
  falsy and gives \<^verbatim>\<open>null\<close> at once.
\<close>

definition convertTimestampToSeconds :: "string \<Rightarrow> jsnum option" where
  "convertTimestampToSeconds timestamp =
     (if timestamp = [] then None
      else (case splitOn (CHR '':'') timestamp of
              [a] \<Rightarrow> Some (parseInt10 a)
            | [a, b] \<Rightarrow> Some (js_add (js_mul (parseInt10 a) (Num 60)) (parseInt10 b))
            | [a, b, c] \<Rightarrow>
                Some (js_add (js_add (js_mul (parseInt10 a) (Num 3600))
                                     (js_mul (parseInt10 b) (Num 60)))
                             (parseInt10 c))
            | _ \<Rightarrow> None))"

section \<open>BrandExtractor: extractBrands\<close>

definition punctuation :: "char list" where
  "punctuation =
     [CHR '','', CHR ''.'', CHR ''!'', CHR ''?'', CHR '';'', CHR '':'', CHR ''('', CHR '')'',
      CHR 0x22, CHR 0x27]"

text \<open>\<^verbatim>\<open>/^[A-Z][a-z]{2,}$/\<close>\<close>

definition brandRegex :: "string \<Rightarrow> bool" where
  "brandRegex w = testAnchored (andThen (oneOf isUpperAZ) (greedy 2 isLowerAZ)) w"

definition isTrademarkSign :: "char \<Rightarrow> bool" where
  "isTrademarkSign c = (c = CHR 0xAE)"

text \<open>\<^verbatim>\<open>/([A-Za-z0-9]+)(?:\s*[(R)(TM)])/g\<close> at one start position.\<close>

definition trademarkRegex_at :: "'r matcher" where
  "trademarkRegex_at =
     andThen (greedy 1 isAlnum) (andThen (greedy 0 isWhiteSpace) (oneOf isTrademarkSign))"

definition extractBrands :: "string \<Rightarrow> string list" where
  "extractBrands text =
     (let words = splitRegex isWhiteSpace text;
          cleanWords = map (filter (\<lambda>c. c \<notin> set punctuation)) words;
          brands = filter brandRegex cleanWords;
          trademarkedBrands = matchAll trademarkRegex_at text
      in brands @ map (filter (\<lambda>c. \<not> (isTrademarkSign c \<or> isWhiteSpace c))) trademarkedBrands)"

section \<open>SponsorshipDetector: detectSponsorship\<close>

definition sponsorKeywords :: "string list" where
  "sponsorKeywords =
     [''sponsor'', ''sponsored'', ''partnership'', ''partnered'', ''promotion'', ''promoted'',
      ''thanks to'', ''paid promotion'', ''sponsored by'', ''affiliate'', ''discount code'',
      ''promo code'', ''use code'', ''click the link'', ''check out'', ''thanks to our sponsor'']"

record sponsorship_info =
  hasSponsorship :: bool
  sponsorshipDetails :: string
  adIndicators :: "string list"
  detectedBrands :: "string list"
  adDuration :: "jsnum option"

text \<open>
  The arguments as a caller can pass them: the description is a string, \<^verbatim>\<open>null\<close> or
  \<^verbatim>\<open>undefined\<close>; the tags are an array of strings, \<^verbatim>\<open>null\<close>, \<^verbatim>\<open>undefined\<close>
  or a value that is not an array.
\<close>

datatype description_arg = DescUndefined | DescNull | DescString string

datatype non_array = NAString string | NANumber int | NABoolean bool | NAObject

datatype tags_arg = TagsUndefined | TagsNull | TagsNonArray non_array | TagsArray "string list"

text \<open>The test \<^verbatim>\<open>if (description)\<close>: a string that is not empty.\<close>

fun truthyDescription :: "description_arg \<Rightarrow> string option" where
  "truthyDescription (DescString d) = (if d = [] then None else Some d)"
| "truthyDescription _ = None"

text \<open>The test \<^verbatim>\<open>tags && Array.isArray(tags)\<close>.\<close>

fun arrayOfTags :: "tags_arg \<Rightarrow> string list option" where
  "arrayOfTags (TagsArray ts) = Some ts"
| "arrayOfTags _ = None"

definition isSentenceEnd :: "char \<Rightarrow> bool" where
  "isSentenceEnd c = (c \<in> set [CHR ''.'', CHR ''!'', CHR ''?''])"

text \<open>The body of the loop over the sentences, for one keyword.\<close>

definition sentenceStep :: "string \<Rightarrow> string \<Rightarrow> sponsorship_info \<Rightarrow> sponsorship_info" where
  "sentenceStep keyword sentence st =
     (if includesStr (toLowerCase sentence) keyword
      then st\<lparr>sponsorshipDetails := sponsorshipDetails st @ trim sentence @ ''. '',
              detectedBrands := detectedBrands st @ extractBrands sentence\<rparr>
      else st)"

text \<open>The body of the loop over the keywords, on the description.\<close>

definition descriptionStep ::
  "string \<Rightarrow> string \<Rightarrow> string \<Rightarrow> sponsorship_info \<Rightarrow> sponsorship_info" where
  "descriptionStep description descriptionLower keyword st =
     (if includesStr descriptionLower keyword
      then (let st' = fold (sentenceStep keyword) (splitRegex isSentenceEnd description)
                        (st\<lparr>hasSponsorship := True\<rparr>)
            in st'\<lparr>adIndicators := adIndicators st' @ [keyword]\<rparr>)
      else st)"

definition tagKeywordStep :: "string \<Rightarrow> string \<Rightarrow> sponsorship_info \<Rightarrow> sponsorship_info" where
  "tagKeywordStep tagLower keyword st =
     (if includesStr tagLower keyword \<and> keyword \<notin> set (adIndicators st)
      then st\<lparr>hasSponsorship := True, adIndicators := adIndicators st @ [keyword]\<rparr>
      else st)"

definition tagStep :: "string \<Rightarrow> sponsorship_info \<Rightarrow> sponsorship_info" where
  "tagStep tag st =
     (let st' = fold (tagKeywordStep (toLowerCase tag)) sponsorKeywords st
      in if length tag > 3 \<and> (case tag of [] \<Rightarrow> False | c # _ \<Rightarrow> isUpperAZ c)
         then st'\<lparr>detectedBrands := detectedBrands st' @ [tag]\<rparr>
         else st')"

text \<open>\<^verbatim>\<open>(\d+:?\d*)\<close>, the shape of both timestamp groups.\<close>

definition timeToken :: "'r matcher" where
  "timeToken =
     andThen (greedy 1 isDigit)
       (andThen (optional (oneOf (\<lambda>c. c = CHR '':''))) (greedy 0 isDigit))"

definition adWord :: "'r matcher" where
  "adWord = alternatives (map literalCI [''ad'', ''sponsor'', ''promotion'', ''sponsored''])"

text \<open>An optional capturing group: \<open>None\<close> when it takes no part in the match.\<close>

definition optionalGroup ::
  "'r matcher \<Rightarrow> string \<Rightarrow> (string option \<Rightarrow> string \<Rightarrow> 'r option) \<Rightarrow> 'r option" where
  "optionalGroup m s k = (case m s (\<lambda>g r. k (Some g) r) of None \<Rightarrow> k None s | Some v \<Rightarrow> Some v)"

text \<open>
  \<^verbatim>\<open>/(\d+:?\d*)\s*-?\s*(\d+:?\d*)?\s*(ad|sponsor|promotion|sponsored)/i\<close> at one start
  position: the three groups of the match the engine finds there.
\<close>

definition adTimestampRegex_at :: "string \<Rightarrow> (string \<times> string option \<times> string) option" where
  "adTimestampRegex_at s =
     timeToken s (\<lambda>g1 r1.
     andThen (greedy 0 isWhiteSpace)
       (andThen (optional (oneOf (\<lambda>c. c = CHR ''-''))) (greedy 0 isWhiteSpace)) r1 (\<lambda>sep r2.
     optionalGroup timeToken r2 (\<lambda>g2 r3.
     greedy 0 isWhiteSpace r3 (\<lambda>ws r4.
     adWord r4 (\<lambda>g3 r5. Some (g1, g2, g3))))))"

text \<open>\<^verbatim>\<open>description.match(adTimestampRegex)\<close>; \<open>None\<close> is \<^verbatim>\<open>null\<close>.\<close>

definition adTimestampRegex_match :: "string \<Rightarrow> (string \<times> string option \<times> string) option" where
  "adTimestampRegex_match description = matchFirst adTimestampRegex_at description"

text \<open>The block that follows a match of the timestamp pattern.\<close>

definition timestampStep ::
  "(string \<times> string option \<times> string) \<Rightarrow> sponsorship_info \<Rightarrow> sponsorship_info" where
  "timestampStep timestampMatches st =
     (case timestampMatches of (g1, g2, g3) \<Rightarrow>
        (let st' = st\<lparr>hasSponsorship := True,
                       adIndicators := adIndicators st @ [''timestamp indicator''],
                       sponsorshipDetails :=
                         sponsorshipDetails st @ ''Ad segment detected at '' @ g1 @ ''. ''\<rparr>
         in (case g2 of
               None \<Rightarrow> st'
             | Some e \<Rightarrow>
                 if e = [] then st'
                 else (case convertTimestampToSeconds g1 of
                         None \<Rightarrow> st'
                       | Some startTime \<Rightarrow>
                           (case convertTimestampToSeconds e of
                              None \<Rightarrow> st'
                            | Some endTime \<Rightarrow>
                                st'\<lparr>adDuration := Some (js_sub endTime startTime)\<rparr>)))))"

definition detectSponsorship :: "description_arg \<Rightarrow> tags_arg \<Rightarrow> sponsorship_info" where
  "detectSponsorship description tags =
     (let st0 = \<lparr>hasSponsorship = False, sponsorshipDetails = [], adIndicators = [],
                 detectedBrands = [], adDuration = None\<rparr>;
          st1 = (case truthyDescription description of
                   None \<Rightarrow> st0
                 | Some d \<Rightarrow> fold (descriptionStep d (toLowerCase d)) sponsorKeywords st0);
          st2 = (case arrayOfTags tags of
                   None \<Rightarrow> st1
                 | Some ts \<Rightarrow> fold tagStep ts st1);
          st3 = (case truthyDescription description of
                   None \<Rightarrow> st2
                 | Some d \<Rightarrow>
                     (case adTimestampRegex_match d of
                        None \<Rightarrow> st2
                      | Some timestampMatches \<Rightarrow> timestampStep timestampMatches st2))
      in \<lparr>hasSponsorship = hasSponsorship st3,
          sponsorshipDetails = trim (sponsorshipDetails st3),
          adIndicators = (if length (adIndicators st3) > 0 then dedupe (adIndicators st3) else []),
          detectedBrands = dedupe (detectedBrands st3),
          adDuration = adDuration st3\<rparr>)"

section \<open>EngagementCalculator: calculateEngagementMetrics\<close>

text \<open>
  The engagement and sentiment figures are JavaScript numbers. They are modelled as
  real numbers: the arithmetic is exact, the rounding of doubles is not represented,
  and \<^verbatim>\<open>NaN\<close> is not an input (the caller passes \<^verbatim>\<open>parseInt(...) || 0\<close>).
\<close>

record engagement_metrics =
  likeToViewRatio :: real
  commentToViewRatio :: real
  overallEngagementRate :: real
  adEffectivenessScore :: real

definition calculateEngagementMetrics :: "real \<Rightarrow> real \<Rightarrow> real \<Rightarrow> engagement_metrics" where
  "calculateEngagementMetrics viewCount likeCount commentCount =
     (let metrics = \<lparr>likeToViewRatio = 0, commentToViewRatio = 0,
                      overallEngagementRate = 0, adEffectivenessScore = 0\<rparr>
      in if viewCount > 0
         then (let metrics1 = metrics\<lparr>likeToViewRatio := (likeCount / viewCount) * 100,
                                       commentToViewRatio := (commentCount / viewCount) * 100,
                                       overallEngagementRate :=
                                         ((likeCount + commentCount) / viewCount) * 100\<rparr>
               in metrics1\<lparr>adEffectivenessScore :=
                             (likeToViewRatio metrics1 * 0.7) + (commentToViewRatio metrics1 * 0.3)\<rparr>)
         else metrics)"

section \<open>SentimentAnalyzer: analyzeCommentSentiment\<close>

text \<open>
  Of a comment the analysis reads the field \<^verbatim>\<open>text\<close> only. The tokenizer and the
  sentiment scorer belong to the package \<^verbatim>\<open>natural\<close>, which is not part of the
  repository: they are parameters. A score \<open>None\<close> is \<^verbatim>\<open>NaN\<close> (the scorer divides
  by the number of tokens).
\<close>

record comment =
  commentId :: string
  commentText :: string

record nlp =
  tokenize :: "string \<Rightarrow> string list"
  getSentiment :: "string list \<Rightarrow> real option"

record keyword_stats =
  kwCount :: nat
  kwTotalSentiment :: real
  kwAverageSentiment :: real

text \<open>
  The fields \<open>totalComments\<close> and \<open>keywordSentiment\<close> are optional: \<open>None\<close> says
  that the object has no such property. The keyword object is an association list in
  insertion order.
\<close>

record sentiment_summary =
  averageSentiment :: real
  positivePercentage :: real
  negativePercentage :: real
  neutralPercentage :: real
  totalComments :: "nat option"
  keywordSentiment :: "(string \<times> keyword_stats) list option"

text \<open>The mutable locals of the loop over the comments.\<close>

record sentiment_acc =
  totalSentiment :: real
  positiveCount :: nat
  negativeCount :: nat
  neutralCount :: nat
  keywordAcc :: "(string \<times> keyword_stats) list"

text \<open>\<^verbatim>\<open>x || 0\<close> on a number: a falsy number gives \<open>0\<close>.\<close>

definition orZero :: "real \<Rightarrow> real" where
  "orZero x = (if x = 0 then 0 else x)"

definition adKeywords :: "string list" where
  "adKeywords = [''ad'', ''sponsor'', ''promotion'', ''sponsored'', ''brand'', ''product'']"

definition sentimentScoreOf :: "nlp \<Rightarrow> comment \<Rightarrow> real" where
  "sentimentScoreOf lib c =
     (case getSentiment lib (tokenize lib (commentText c)) of None \<Rightarrow> 0 | Some x \<Rightarrow> orZero x)"

definition bumpKeyword ::
  "string \<Rightarrow> real \<Rightarrow> (string \<times> keyword_stats) list \<Rightarrow> (string \<times> keyword_stats) list" where
  "bumpKeyword keyword sentimentScore ks =
     (let ks1 = (case map_of ks keyword of
                   None \<Rightarrow> ks @ [(keyword, \<lparr>kwCount = 0, kwTotalSentiment = 0,
                                              kwAverageSentiment = 0\<rparr>)]
                 | Some e \<Rightarrow> ks)
      in map (\<lambda>(k, e). if k = keyword
                        then (k, e\<lparr>kwCount := kwCount e + 1,
                                   kwTotalSentiment := kwTotalSentiment e + sentimentScore\<rparr>)
                        else (k, e)) ks1)"

definition commentKeywordStep ::
  "string \<Rightarrow> real \<Rightarrow> string \<Rightarrow> (string \<times> keyword_stats) list
     \<Rightarrow> (string \<times> keyword_stats) list" where
  "commentKeywordStep textLower sentimentScore keyword ks =
     (if includesStr textLower keyword then bumpKeyword keyword sentimentScore ks else ks)"

definition commentStep :: "nlp \<Rightarrow> comment \<Rightarrow> sentiment_acc \<Rightarrow> sentiment_acc" where
  "commentStep lib c acc =
     (let sentimentScore = sentimentScoreOf lib c;
          acc1 = acc\<lparr>totalSentiment := totalSentiment acc + sentimentScore\<rparr>;
          acc2 = (if sentimentScore > 0.05 then acc1\<lparr>positiveCount := positiveCount acc1 + 1\<rparr>
                  else if sentimentScore < - 0.05
                       then acc1\<lparr>negativeCount := negativeCount acc1 + 1\<rparr>
                       else acc1\<lparr>neutralCount := neutralCount acc1 + 1\<rparr>)
      in acc2\<lparr>keywordAcc :=
                 fold (commentKeywordStep (toLowerCase (commentText c)) sentimentScore)
                   adKeywords (keywordAcc acc2)\<rparr>)"

definition keywordAverage :: "keyword_stats \<Rightarrow> keyword_stats" where
  "keywordAverage e =
     (if kwCount e > 0
      then e\<lparr>kwAverageSentiment := orZero (kwTotalSentiment e / real (kwCount e))\<rparr>
      else e)"

text \<open>
  The argument is the array of comments; \<^verbatim>\<open>null\<close> and \<^verbatim>\<open>undefined\<close> take the
  branch of the empty array.
\<close>

definition analyzeCommentSentiment :: "nlp \<Rightarrow> comment list \<Rightarrow> sentiment_summary" where
  "analyzeCommentSentiment lib comments =
     (if length comments = 0
      then \<lparr>averageSentiment = 0, positivePercentage = 0, negativePercentage = 0,
            neutralPercentage = 0, totalComments = Some 0, keywordSentiment = Some []\<rparr>
      else (let acc = fold (commentStep lib) comments
                        \<lparr>totalSentiment = 0, positiveCount = 0, negativeCount = 0,
                         neutralCount = 0, keywordAcc = []\<rparr>;
                n = length comments
            in \<lparr>averageSentiment = (if n > 0 then orZero (totalSentiment acc / real n) else 0),
                positivePercentage =
                  (if n > 0 then orZero ((real (positiveCount acc) / real n) * 100) else 0),
                negativePercentage =
                  (if n > 0 then orZero ((real (negativeCount acc) / real n) * 100) else 0),
                neutralPercentage =
                  (if n > 0 then orZero ((real (neutralCount acc) / real n) * 100) else 0),
                totalComments = Some n,
                keywordSentiment =
                  Some (map (\<lambda>(k, e). (k, keywordAverage e)) (keywordAcc acc))\<rparr>))"

section \<open>EffectivenessScorer: calculateAdEffectiveness\<close>

definition calculateAdEffectiveness :: "engagement_metrics \<Rightarrow> sentiment_summary \<Rightarrow> real" where
  "calculateAdEffectiveness engagement sentiment =
     (let normalizedEngagement = min (adEffectivenessScore engagement * 10) 100;
          sentimentScore = (positivePercentage sentiment - negativePercentage sentiment + 100) / 2;
          effectivenessScore = (normalizedEngagement * 0.5) + (sentimentScore * 0.5)
      in max 0 (min 100 effectivenessScore))"

section \<open>InsightComposer: analyzeVideoContent\<close>

text \<open>
  A rejected promise or a thrown exception is an error value with its message. The
  description of a video can be missing (\<open>None\<close>): the record of the platform need not
  carry one, and \<^verbatim>\<open>description.substring\<close> then throws inside the \<^verbatim>\<open>try\<close> block.
\<close>

datatype js_error = Error string

fun message :: "js_error \<Rightarrow> string" where
  "message (Error m) = m"

record video_data =
  title :: string
  description :: "string option"
  tags :: "string list option"
  sponsorshipInfo :: sponsorship_info
  engagementMetrics :: engagement_metrics

text \<open>
  The values that the prompt template embeds. The text of the template and the rendering
  of the rate by \<^verbatim>\<open>toFixed(2)\<close> are not modelled: the prompt only travels to the
  generative service, whose reply is an arbitrary text or a failure.
\<close>

record prompt =
  promptTitle :: string
  promptDescription :: string
  promptTags :: string
  promptHasSponsorship :: bool
  promptSponsorshipDetails :: string
  promptEngagementRate :: real
  promptComments :: string

fun joinWith :: "string \<Rightarrow> string list \<Rightarrow> string" where
  "joinWith sep [] = []"
| "joinWith sep [x] = x"
| "joinWith sep (x # y # ys) = x @ sep @ joinWith sep (y # ys)"

record analysis_result =
  aiInsights :: string
  adStyle :: string
  adEffectiveness :: real
  adSentiment :: sentiment_summary

text \<open>Truthiness of \<^verbatim>\<open>sponsorshipInfo.adDuration\<close>, and its comparison with 60.\<close>

fun truthyDuration :: "jsnum option \<Rightarrow> bool" where
  "truthyDuration None = False"
| "truthyDuration (Some n) = truthyNum n"

fun durationExceeds :: "jsnum option \<Rightarrow> int \<Rightarrow> bool" where
  "durationExceeds None k = (0 > k)"
| "durationExceeds (Some n) k = js_gt n k"

text \<open>The resolution of the ad style (lines 428 to 438 of the service).\<close>

definition resolveAdStyle :: "sponsorship_info \<Rightarrow> string \<Rightarrow> string" where
  "resolveAdStyle info insights =
     (if hasSponsorship info
      then (if truthyDuration (adDuration info)
            then (if durationExceeds (adDuration info) 60 then ''Long-form'' else ''Short-form'')
            else if includesStr (toLowerCase insights) ''long-form'' then ''Long-form''
            else if includesStr (toLowerCase insights) ''short-form'' then ''Short-form''
            else ''Unknown'')
      else ''Unknown'')"

text \<open>The object that the \<^verbatim>\<open>catch\<close> block returns.\<close>

definition analysisFailed :: analysis_result where
  "analysisFailed =
     \<lparr>aiInsights = ''Analysis failed'', adStyle = ''Unknown'', adEffectiveness = 0,
      adSentiment = \<lparr>averageSentiment = 0, positivePercentage = 0, negativePercentage = 0,
                     neutralPercentage = 0, totalComments = None, keywordSentiment = None\<rparr>\<rparr>"

text \<open>
  The generative service is the parameter \<open>generateContent\<close>: the text of its reply, or
  the error with which the call fails. The time stamp \<^verbatim>\<open>lastAnalyzed\<close> is left out.
\<close>

definition analyzeVideoContent ::
  "nlp \<Rightarrow> (prompt \<Rightarrow> js_error + string) \<Rightarrow> video_data \<Rightarrow> comment list \<Rightarrow> analysis_result" where
  "analyzeVideoContent lib generateContent videoData comments =
     (case description videoData of
        None \<Rightarrow> analysisFailed
      | Some d \<Rightarrow>
          (case generateContent
                  \<lparr>promptTitle = title videoData,
                   promptDescription = take 1000 d,
                   promptTags = (case tags videoData of None \<Rightarrow> [] | Some ts \<Rightarrow> joinWith '', '' ts),
                   promptHasSponsorship = hasSponsorship (sponsorshipInfo videoData),
                   promptSponsorshipDetails = sponsorshipDetails (sponsorshipInfo videoData),
                   promptEngagementRate = overallEngagementRate (engagementMetrics videoData),
                   promptComments = joinWith [CHR 0x0A] (map commentText (take 5 comments))\<rparr> of
             Inl error \<Rightarrow> analysisFailed
           | Inr reply \<Rightarrow>
               (let insights = trim reply;
                    commentSentiment = analyzeCommentSentiment lib comments
                in \<lparr>aiInsights = insights,
                    adStyle = resolveAdStyle (sponsorshipInfo videoData) insights,
                    adEffectiveness =
                      calculateAdEffectiveness (engagementMetrics videoData) commentSentiment,
                    adSentiment = commentSentiment\<rparr>)))"

section \<open>ReportOrchestrator: generateAdInsightsReport and generateChannelAdInsights\<close>

text \<open>
  The collaborators of the pipeline, as functions of their arguments: the fetch of the
  video record (\<open>None\<close> is \<^verbatim>\<open>null\<close>), the fetch of the comments, the generative
  service, and the query of the store for the videos of a channel. The versions of the
  source catch their own failures; the model lets a collaborator fail as well, which
  the \<^verbatim>\<open>try\<close> block of the caller covers. Saving the report writes to the store
  only, swallows its own failure and returns nothing, so it has no part in a result.
\<close>

record collaborators =
  getVideoDetails :: "string \<Rightarrow> js_error + video_data option"
  getVideoComments :: "string \<Rightarrow> js_error + comment list"
  generateContent :: "prompt \<Rightarrow> js_error + string"
  library :: nlp

text \<open>
  The report: the identity of the video, the sponsorship and engagement records copied
  from the video record, and the outcome of the analysis. The time stamp
  \<^verbatim>\<open>generatedAt\<close> is left out.
\<close>

record report =
  reportVideoId :: string
  reportTitle :: string
  adData :: sponsorship_info
  engagement :: engagement_metrics
  analysis :: analysis_result

text \<open>\<^verbatim>\<open>{success: true, report}\<close> or \<^verbatim>\<open>{success: false, error}\<close>.\<close>

datatype report_result = ReportSuccess report | ReportFailure string

definition generateAdInsightsReport :: "collaborators \<Rightarrow> string \<Rightarrow> report_result" where
  "generateAdInsightsReport env videoId =
     (case getVideoDetails env videoId of
        Inl error \<Rightarrow> ReportFailure (message error)
      | Inr None \<Rightarrow> ReportFailure ''Video not found''
      | Inr (Some videoData) \<Rightarrow>
          (case getVideoComments env videoId of
             Inl error \<Rightarrow> ReportFailure (message error)
           | Inr comments \<Rightarrow>
               ReportSuccess
                 \<lparr>reportVideoId = videoId,
                  reportTitle = title videoData,
                  adData = sponsorshipInfo videoData,
                  engagement = engagementMetrics videoData,
                  analysis = analyzeVideoContent (library env) (generateContent env)
                               videoData comments\<rparr>))"

record video_doc =
  videoId :: string
  docTitle :: string

record report_item =
  itemVideoId :: string
  itemTitle :: string
  itemSuccess :: bool
  itemError :: "string option"

record batch_results =
  total :: nat
  processed :: nat
  failed :: nat
  reports :: "report_item list"

datatype batch_result = BatchSuccess batch_results | BatchFailure string

text \<open>
  The body of the loop over the videos. The per-video pipeline is the parameter
  \<open>pipeline\<close>, with the outcome of the awaited call: a result object, or the error of a
  rejection, which the inner \<^verbatim>\<open>catch\<close> block records.
\<close>

definition processVideo ::
  "(string \<Rightarrow> js_error + report_result) \<Rightarrow> video_doc \<Rightarrow> batch_results \<Rightarrow> batch_results" where
  "processVideo pipeline video results =
     (case pipeline (videoId video) of
        Inr (ReportSuccess r) \<Rightarrow>
          results\<lparr>processed := processed results + 1,
                  reports := reports results @
                    [\<lparr>itemVideoId = videoId video, itemTitle = docTitle video,
                      itemSuccess = True, itemError = None\<rparr>]\<rparr>
      | Inr (ReportFailure e) \<Rightarrow>
          results\<lparr>failed := failed results + 1,
                  reports := reports results @
                    [\<lparr>itemVideoId = videoId video, itemTitle = docTitle video,
                      itemSuccess = False, itemError = Some e\<rparr>]\<rparr>
      | Inl error \<Rightarrow>
          results\<lparr>failed := failed results + 1,
                  reports := reports results @
                    [\<lparr>itemVideoId = videoId video, itemTitle = docTitle video,
                      itemSuccess = False, itemError = Some (message error)\<rparr>]\<rparr>)"

text \<open>
  The batch over a channel, with the per-video pipeline and the query of the store
  (\<^verbatim>\<open>Video.find\<close>) as parameters.
\<close>

definition generateChannelAdInsights ::
  "(string \<Rightarrow> js_error + report_result) \<Rightarrow> (string \<Rightarrow> js_error + video_doc list)
     \<Rightarrow> string \<Rightarrow> batch_result" where
  "generateChannelAdInsights pipeline findVideos channelId =
     (case findVideos channelId of
        Inl error \<Rightarrow> BatchFailure (message error)
      | Inr videos \<Rightarrow>
          if length videos = 0 then BatchFailure ''No videos found for this channel''
          else BatchSuccess
                 (fold (processVideo pipeline) videos
                    \<lparr>total = length videos, processed = 0, failed = 0, reports = []\<rparr>))"

text \<open>
  The batch as the service runs it: the pipeline is \<open>generateAdInsightsReport\<close>, which
  returns a result object in every case.
\<close>

definition channelAdInsights ::
  "collaborators \<Rightarrow> (string \<Rightarrow> js_error + video_doc list) \<Rightarrow> string \<Rightarrow> batch_result" where
  "channelAdInsights env findVideos channelId =
     generateChannelAdInsights (\<lambda>v. Inr (generateAdInsightsReport env v)) findVideos channelId"

section \<open>Notions for stating the properties of the batch\<close>

text \<open>
  A video fails in the batch when the awaited pipeline does not answer with a result
  object whose \<^verbatim>\<open>success\<close> is true: it answers with a failure object, or it
  rejects.
\<close>

definition videoFails :: "(string \<Rightarrow> js_error + report_result) \<Rightarrow> video_doc \<Rightarrow> bool" where
  "videoFails pipeline video =
     (case pipeline (videoId video) of Inr (ReportSuccess r) \<Rightarrow> False | _ \<Rightarrow> True)"

text \<open>The entry that the batch is expected to record for a video.\<close>

definition recordedItem :: "(string \<Rightarrow> js_error + report_result) \<Rightarrow> video_doc \<Rightarrow> report_item" where
  "recordedItem pipeline video =
     \<lparr>itemVideoId = videoId video, itemTitle = docTitle video,
      itemSuccess = (case pipeline (videoId video) of Inr (ReportSuccess r) \<Rightarrow> True | _ \<Rightarrow> False),
      itemError = (case pipeline (videoId video) of
                     Inr (ReportSuccess r) \<Rightarrow> None
                   | Inr (ReportFailure e) \<Rightarrow> Some e
                   | Inl error \<Rightarrow> Some (message error))\<rparr>"

text \<open>
  An environment for the examples: the video \<^verbatim>\<open>v2\<close> is not found, every other
  video is, no video has comments, and the generative service is down.
\<close>

definition exampleEnv :: collaborators where
  "exampleEnv =
     \<lparr>getVideoDetails = (\<lambda>v. if v = ''v2'' then Inr None
                              else Inr (Some \<lparr>title = ''Review'', description = None, tags = None,
                                               sponsorshipInfo = detectSponsorship DescNull TagsNull,
                                               engagementMetrics = calculateEngagementMetrics 0 0 0\<rparr>)),
      getVideoComments = (\<lambda>v. Inr []),
      generateContent = (\<lambda>p. Inl (Error ''service unavailable'')),
      library = \<lparr>tokenize = (\<lambda>s. [s]), getSentiment = (\<lambda>ts. None)\<rparr>\<rparr>"

section \<open>Reasoning about detectSponsorship\<close>

text \<open>
  The locals of \<open>detectSponsorship\<close> after the loops over the description and the
  tags, before the timestamp pattern is searched. It names an intermediate state of the
  function for the proofs and adds nothing to the model.
\<close>

definition beforeTimestamp :: "description_arg \<Rightarrow> tags_arg \<Rightarrow> sponsorship_info" where
  "beforeTimestamp d t =
     (let st0 = \<lparr>hasSponsorship = False, sponsorshipDetails = [], adIndicators = [],
                 detectedBrands = [], adDuration = None\<rparr>;
          st1 = (case truthyDescription d of
                   None \<Rightarrow> st0
                 | Some s \<Rightarrow> fold (descriptionStep s (toLowerCase s)) sponsorKeywords st0)
      in (case arrayOfTags t of None \<Rightarrow> st1 | Some ts \<Rightarrow> fold tagStep ts st1))"

subsection \<open>Substrings and the set of recorded indicators\<close>

lemma includesStr_iff: "includesStr s k \<longleftrightarrow> (\<exists>p q. s = p @ k @ q)"
proof (induction s)
  case Nil
  show ?case by auto
next
  case (Cons c cs)
  show ?case
  proof
    assume "includesStr (c # cs) k"
    then consider "prefix k (c # cs)" | "includesStr cs k" by auto
    then show "\<exists>p q. c # cs = p @ k @ q"
    proof cases
      case 1
      then obtain q where "c # cs = k @ q" by (auto simp: prefix_def)
      then have "c # cs = [] @ k @ q" by simp
      then show ?thesis by blast
    next
      case 2
      with Cons.IH obtain p q where "cs = p @ k @ q" by blast
      then have "c # cs = (c # p) @ k @ q" by simp
      then show ?thesis by blast
    qed
  next
    assume "\<exists>p q. c # cs = p @ k @ q"
    then obtain p q where pq: "c # cs = p @ k @ q" by blast
    show "includesStr (c # cs) k"
    proof (cases p)
      case Nil
      with pq have "prefix k (c # cs)" by (simp add: prefix_def)
      then show ?thesis by simp
    next
      case (Cons a p')
      with pq have "cs = p' @ k @ q" by simp
      with Cons.IH have "includesStr cs k" by blast
      then show ?thesis by simp
    qed
  qed
qed

lemma includesStr_trans:
  assumes "includesStr s k2" and "includesStr k2 k1"
  shows "includesStr s k1"
proof -
  from assms obtain p q p' q' where "s = p @ k2 @ q" and "k2 = p' @ k1 @ q'"
    by (auto simp: includesStr_iff)
  then have "s = (p @ p') @ k1 @ (q' @ q)" by simp
  then show ?thesis unfolding includesStr_iff by blast
qed

lemma set_dedupe_fold:
  "set (fold (\<lambda>x acc. if x \<in> set acc then acc else acc @ [x]) xs acc0) = set acc0 \<union> set xs"
  by (induction xs arbitrary: acc0) auto

lemma set_dedupe: "set (dedupe xs) = set xs"
  by (simp add: dedupe_def set_dedupe_fold)

lemma sentenceStep_keeps:
  "adIndicators (sentenceStep kw s st) = adIndicators st"
  "adDuration (sentenceStep kw s st) = adDuration st"
  by (simp_all add: sentenceStep_def)

lemma fold_sentenceStep_keeps:
  "adIndicators (fold (sentenceStep kw) ss st) = adIndicators st \<and>
   adDuration (fold (sentenceStep kw) ss st) = adDuration st"
  by (induction ss arbitrary: st) (simp_all add: sentenceStep_keeps)

lemma descriptionStep_indicators:
  "adIndicators (descriptionStep d dl kw st) =
     adIndicators st @ (if includesStr dl kw then [kw] else [])"
  by (simp add: descriptionStep_def Let_def fold_sentenceStep_keeps)

lemma descriptionStep_duration:
  "adDuration (descriptionStep d dl kw st) = adDuration st"
  by (simp add: descriptionStep_def Let_def fold_sentenceStep_keeps)

lemma fold_descriptionStep_indicators:
  "set (adIndicators (fold (descriptionStep d dl) ks st)) =
     set (adIndicators st) \<union> {k \<in> set ks. includesStr dl k}"
  by (induction ks arbitrary: st) (auto simp: descriptionStep_indicators)

lemma fold_descriptionStep_duration:
  "adDuration (fold (descriptionStep d dl) ks st) = adDuration st"
  by (induction ks arbitrary: st) (simp_all add: descriptionStep_duration)

lemma tagKeywordStep_mono:
  "set (adIndicators st) \<subseteq> set (adIndicators (tagKeywordStep tgl kw st))"
  "adDuration (tagKeywordStep tgl kw st) = adDuration st"
  by (auto simp: tagKeywordStep_def)

lemma fold_tagKeywordStep_mono:
  "set (adIndicators st) \<subseteq> set (adIndicators (fold (tagKeywordStep tgl) ks st)) \<and>
   adDuration (fold (tagKeywordStep tgl) ks st) = adDuration st"
proof (induction ks arbitrary: st)
  case Nil
  show ?case by simp
next
  case (Cons k ks)
  from Cons.IH [of "tagKeywordStep tgl k st"] tagKeywordStep_mono [where st = st and tgl = tgl and kw = k]
  show ?case by auto
qed

lemma tagStep_mono:
  "set (adIndicators st) \<subseteq> set (adIndicators (tagStep tag st)) \<and>
   adDuration (tagStep tag st) = adDuration st"
  using fold_tagKeywordStep_mono [where st = st and tgl = "toLowerCase tag" and ks = sponsorKeywords]
  by (auto simp: tagStep_def Let_def)

lemma fold_tagStep_mono:
  "set (adIndicators st) \<subseteq> set (adIndicators (fold tagStep ts st)) \<and>
   adDuration (fold tagStep ts st) = adDuration st"
proof (induction ts arbitrary: st)
  case Nil
  show ?case by simp
next
  case (Cons t ts)
  from Cons.IH [of "tagStep t st"] tagStep_mono [where st = st and tag = t]
  show ?case by auto
qed

lemma timestampStep_mono:
  "set (adIndicators st) \<subseteq> set (adIndicators (timestampStep m st))"
  by (cases m) (auto simp: timestampStep_def Let_def split: option.splits)


lemma matchFirst_Nil: "adTimestampRegex_match [] = None"
  by (simp add: adTimestampRegex_match_def adTimestampRegex_at_def timeToken_def andThen_def
      greedy_def)

lemma convert_Nil: "convertTimestampToSeconds [] = None"
  by (simp add: convertTimestampToSeconds_def)

lemma timestampStep_duration_None:
  "adDuration st = None \<Longrightarrow> adDuration (timestampStep (g1, None, g3) st) = None"
  by (simp add: timestampStep_def Let_def)

lemma timestampStep_duration_Some:
  "adDuration (timestampStep (g1, Some g2, g3) st) =
     (if g2 = [] then adDuration st
      else (case convertTimestampToSeconds g1 of
              None \<Rightarrow> adDuration st
            | Some a \<Rightarrow> (case convertTimestampToSeconds g2 of
                           None \<Rightarrow> adDuration st
                         | Some b \<Rightarrow> Some (js_sub b a))))"
  by (simp add: timestampStep_def Let_def split: option.splits)

lemma beforeTimestamp_duration: "adDuration (beforeTimestamp d t) = None"
  by (simp add: beforeTimestamp_def Let_def fold_descriptionStep_duration fold_tagStep_mono
      split: option.splits)

lemma detect_duration:
  "adDuration (detectSponsorship d t) =
     (case truthyDescription d of
        None \<Rightarrow> None
      | Some s \<Rightarrow> (case adTimestampRegex_match s of
                     None \<Rightarrow> None
                   | Some m \<Rightarrow> adDuration (timestampStep m (beforeTimestamp d t))))"
  using beforeTimestamp_duration [of d t]
  by (simp add: detectSponsorship_def beforeTimestamp_def Let_def split: option.splits)

lemma detect_indicators:
  "set (adIndicators (detectSponsorship d t)) =
     set (adIndicators
       (case truthyDescription d of
          None \<Rightarrow> beforeTimestamp d t
        | Some s \<Rightarrow> (case adTimestampRegex_match s of
                       None \<Rightarrow> beforeTimestamp d t
                     | Some m \<Rightarrow> timestampStep m (beforeTimestamp d t))))"
  by (auto simp: detectSponsorship_def beforeTimestamp_def Let_def set_dedupe split: option.splits)

lemma beforeTimestamp_indicators:
  assumes "s \<noteq> []" and "k \<in> set sponsorKeywords" and "includesStr (toLowerCase s) k"
  shows "k \<in> set (adIndicators (beforeTimestamp (DescString s) t))"
proof -
  let ?st0 = "\<lparr>hasSponsorship = False, sponsorshipDetails = [], adIndicators = [],
                 detectedBrands = [], adDuration = None\<rparr>"
  let ?st1 = "fold (descriptionStep s (toLowerCase s)) sponsorKeywords ?st0"
  from assms have k1: "k \<in> set (adIndicators ?st1)"
    by (simp add: fold_descriptionStep_indicators)
  show ?thesis
  proof (cases "arrayOfTags t")
    case None
    with k1 assms(1) show ?thesis by (simp add: beforeTimestamp_def Let_def)
  next
    case (Some ts)
    from fold_tagStep_mono [where st = ?st1 and ts = ts] k1 have "k \<in> set (adIndicators (fold tagStep ts ?st1))"
      by blast
    with Some assms(1) show ?thesis by (simp add: beforeTimestamp_def Let_def)
  qed
qed

lemma detect_records_keyword:
  assumes "k \<in> set sponsorKeywords" and "includesStr (toLowerCase s) k"
  shows "k \<in> set (adIndicators (detectSponsorship (DescString s) t))"
proof -
  have "k \<noteq> []" using assms(1) by (auto simp: sponsorKeywords_def)
  with assms(2) have ne: "s \<noteq> []" by (cases s) (auto simp: toLowerCase_def)
  from beforeTimestamp_indicators [OF ne assms] have b: "k \<in> set (adIndicators (beforeTimestamp (DescString s) t))" .
  show ?thesis
  proof (cases "adTimestampRegex_match s")
    case None
    with b ne show ?thesis by (simp add: detect_indicators)
  next
    case (Some m)
    from timestampStep_mono [where st = "beforeTimestamp (DescString s) t" and m = m] b
    have "k \<in> set (adIndicators (timestampStep m (beforeTimestamp (DescString s) t)))" by blast
    with Some ne show ?thesis by (simp add: detect_indicators)
  qed
qed

subsection \<open>The duration of the ad segment\<close>

text \<open>
  Claim C1, as the specification states it: \<open>adDuration\<close> is never a negative number.
  The code subtracts the parsed start from the parsed end and stores the difference
  without looking at its sign: for the description \<^verbatim>\<open>5:00 - 1:00 ad\<close> the pattern
  captures the start \<^verbatim>\<open>5:00\<close> (300 seconds) and the end \<^verbatim>\<open>1:00\<close> (60 seconds),
  and \<open>adDuration\<close> is \<open>-240\<close>.
\<close>

theorem adDuration_negative_counterexample:
  "adDuration (detectSponsorship (DescString ''5:00 - 1:00 ad'') (TagsArray [])) =
     Some (Num (- 240))"
  by code_simp

text \<open>
  Claim C1, amended: \<open>adDuration\<close> is set only when the timestamp pattern matches the
  description and captures an end timestamp; when both captured timestamps parse to
  integers it is the end minus the start, in seconds, whatever the sign of the
  difference. In every case without a match or without a captured end it is
  \<^verbatim>\<open>null\<close>.
\<close>

theorem adDuration_end_minus_start:
  "(adDuration (detectSponsorship d t) \<noteq> None \<longrightarrow>
      (\<exists>s g1 g2 g3. d = DescString s \<and> adTimestampRegex_match s = Some (g1, Some g2, g3))) \<and>
   (\<forall>s g1 g2 g3 a b.
      d = DescString s \<and> adTimestampRegex_match s = Some (g1, Some g2, g3) \<and>
      convertTimestampToSeconds g1 = Some (Num a) \<and> convertTimestampToSeconds g2 = Some (Num b)
      \<longrightarrow> adDuration (detectSponsorship d t) = Some (Num (b - a)))"
proof (intro conjI impI allI)
  assume set: "adDuration (detectSponsorship d t) \<noteq> None"
  then obtain s where s: "truthyDescription d = Some s"
    by (auto simp: detect_duration split: option.splits)
  then have d: "d = DescString s" by (cases d) (auto split: if_splits)
  from set s obtain m where m: "adTimestampRegex_match s = Some m"
    by (auto simp: detect_duration split: option.splits)
  obtain g1 g2 g3 where mm: "m = (g1, g2, g3)" by (cases m) auto
  have "g2 \<noteq> None"
  proof
    assume "g2 = None"
    with set s m mm show False
      using timestampStep_duration_None [OF beforeTimestamp_duration [of d t], of g1 g3]
      by (simp add: detect_duration)
  qed
  then obtain e where "g2 = Some e" by (cases g2) auto
  with d m mm
  show "\<exists>s g1 g2 g3. d = DescString s \<and> adTimestampRegex_match s = Some (g1, Some g2, g3)"
    by auto
next
  fix s g1 g2 g3 a b
  assume h: "d = DescString s \<and> adTimestampRegex_match s = Some (g1, Some g2, g3) \<and>
      convertTimestampToSeconds g1 = Some (Num a) \<and> convertTimestampToSeconds g2 = Some (Num b)"
  then have "s \<noteq> []" using matchFirst_Nil by auto
  moreover from h have "g2 \<noteq> []" using convert_Nil by auto
  ultimately show "adDuration (detectSponsorship d t) = Some (Num (b - a))"
    using h by (simp add: detect_duration timestampStep_duration_Some)
qed

lemma match_example:
  "adTimestampRegex_match ''0:30 - 1:45 ad'' = Some (''0:30'', Some ''1:45'', ''ad'')"
  by code_simp

theorem adDuration_end_minus_start_witness:
  "adTimestampRegex_match ''0:30 - 1:45 ad'' = Some (''0:30'', Some ''1:45'', ''ad'') \<and>
   convertTimestampToSeconds ''0:30'' = Some (Num 30) \<and>
   convertTimestampToSeconds ''1:45'' = Some (Num 105) \<and>
   adDuration (detectSponsorship (DescString ''0:30 - 1:45 ad'') (TagsArray [''Tech''])) =
     Some (Num 75)"
proof -
  have a: "convertTimestampToSeconds ''0:30'' = Some (Num 30)" by code_simp
  have b: "convertTimestampToSeconds ''1:45'' = Some (Num 105)" by code_simp
  from adDuration_end_minus_start [of "DescString ''0:30 - 1:45 ad''" "TagsArray [''Tech'']"]
    match_example a b
  have "adDuration (detectSponsorship (DescString ''0:30 - 1:45 ad'') (TagsArray [''Tech''])) =
          Some (Num (105 - 30))"
    by blast
  with match_example a b show ?thesis by simp
qed

subsection \<open>The timestamp parser\<close>

text \<open>
  On well-formed input the parser is right in general: for non-empty runs of decimal
  digits it returns the number of seconds of the forms \<^verbatim>\<open>s\<close>, \<^verbatim>\<open>m:s\<close> and
  \<^verbatim>\<open>h:m:s\<close>, which is not negative.
\<close>

lemma isDigit_plain:
  "isDigit c \<Longrightarrow> \<not> isWhiteSpace c \<and> c \<noteq> CHR ''-'' \<and> c \<noteq> CHR ''+'' \<and> c \<noteq> CHR '':''"
  by (auto simp: isDigit_def isWhiteSpace_def)

lemma parseInt10_digits:
  assumes "ds \<noteq> []" and "list_all isDigit ds"
  shows "parseInt10 ds = Num (digitsValue ds)"
proof -
  from assms obtain c cs where ds: "ds = c # cs" by (cases ds) auto
  with assms(2) have c: "isDigit c" by simp
  have "takeWhile isDigit cs = cs"
    using assms(2) ds by (simp add: list_all_iff)
  then have tw: "takeWhile isDigit ds = ds"
    using c ds by simp
  from c ds have dw: "dropWhile isWhiteSpace ds = ds"
    using isDigit_plain [of c] by simp
  have "parseInt10 ds =
          (if takeWhile isDigit ds = [] then NaN else Num (digitsValue (takeWhile isDigit ds)))"
    using c ds isDigit_plain [of c] dw
    by (simp add: parseInt10_def Let_def del: takeWhile.simps)
  then show ?thesis unfolding tw using assms(1) by simp
qed

lemma splitOn_no_separator:
  "sep \<notin> set s \<Longrightarrow> splitOn sep s = [s]"
  by (induction s) auto

lemma splitOn_first_field:
  "sep \<notin> set a \<Longrightarrow> splitOn sep (a @ sep # b) = a # splitOn sep b"
  by (induction a) auto

lemma digits_no_colon:
  "list_all isDigit ds \<Longrightarrow> CHR '':'' \<notin> set ds"
  using isDigit_plain by (auto simp: list_all_iff)

lemma convertTimestampToSeconds_wellformed:
  assumes "h \<noteq> []" "list_all isDigit h" "m \<noteq> []" "list_all isDigit m"
    and "s \<noteq> []" "list_all isDigit s"
  shows "convertTimestampToSeconds s = Some (Num (digitsValue s))"
    and "convertTimestampToSeconds (m @ '':'' @ s) =
           Some (Num (digitsValue m * 60 + digitsValue s))"
    and "convertTimestampToSeconds (h @ '':'' @ m @ '':'' @ s) =
           Some (Num (digitsValue h * 3600 + digitsValue m * 60 + digitsValue s))"
proof -
  note nc = digits_no_colon [OF assms(2)] digits_no_colon [OF assms(4)]
    digits_no_colon [OF assms(6)]
  note pi = parseInt10_digits [OF assms(1,2)] parseInt10_digits [OF assms(3,4)]
    parseInt10_digits [OF assms(5,6)]
  show "convertTimestampToSeconds s = Some (Num (digitsValue s))"
    using assms(5) nc pi by (simp add: convertTimestampToSeconds_def splitOn_no_separator)
  show "convertTimestampToSeconds (m @ '':'' @ s) =
           Some (Num (digitsValue m * 60 + digitsValue s))"
    using assms(3) nc pi
    by (simp add: convertTimestampToSeconds_def splitOn_first_field splitOn_no_separator)
  show "convertTimestampToSeconds (h @ '':'' @ m @ '':'' @ s) =
           Some (Num (digitsValue h * 3600 + digitsValue m * 60 + digitsValue s))"
    using assms(1) nc pi
    by (simp add: convertTimestampToSeconds_def splitOn_first_field splitOn_no_separator)
qed

lemma digitsValue_nonneg_aux:
  "0 \<le> a \<Longrightarrow> 0 \<le> foldl (\<lambda>a c. 10 * a + digitValue c) a ds"
proof (induction ds arbitrary: a)
  case Nil
  then show ?case by simp
next
  case (Cons c cs)
  have "0 \<le> digitValue c"
    by (simp add: digitValue_def split: option.splits)
  with Cons.prems have "0 \<le> 10 * a + digitValue c" by simp
  from Cons.IH [OF this] show ?case by simp
qed

lemma digitsValue_nonneg: "0 \<le> digitsValue ds"
  by (simp add: digitsValue_def digitsValue_nonneg_aux)

text \<open>
  Claim C2: \<open>convertTimestampToSeconds\<close> gives 90 for \<^verbatim>\<open>1:30\<close> and 3630 for
  \<^verbatim>\<open>1:00:30\<close>, and \<^verbatim>\<open>null\<close> for four parts. For an input whose parts are not
  integers the claim, like the comment above the function, promises \<^verbatim>\<open>null\<close>; the
  code returns what \<^verbatim>\<open>parseInt\<close> returns, which is \<^verbatim>\<open>NaN\<close>: so for
  \<^verbatim>\<open>abc\<close> and for \<^verbatim>\<open>1:\<close>.
\<close>

theorem convertTimestampToSeconds_examples:
  "convertTimestampToSeconds ''1:30'' = Some (Num 90) \<and>
   convertTimestampToSeconds ''1:00:30'' = Some (Num 3630) \<and>
   convertTimestampToSeconds ''abc'' = Some NaN \<and>
   convertTimestampToSeconds ''1:'' = Some NaN \<and>
   convertTimestampToSeconds ''1:2:3:4'' = None"
  by code_simp

subsection \<open>Indicator phrases contained in one another\<close>

text \<open>
  Claim C9: a description whose lower-cased form contains \<^verbatim>\<open>sponsored\<close> has both
  \<^verbatim>\<open>sponsor\<close> and \<^verbatim>\<open>sponsored\<close> among its \<open>adIndicators\<close>; and in general,
  when a configured phrase occurs in the lower-cased description, every configured
  phrase that is a substring of it is recorded as well.
\<close>

theorem detectSponsorship_records_contained_phrases:
  "(includesStr (toLowerCase s) ''sponsored'' \<longrightarrow>
      ''sponsor'' \<in> set (adIndicators (detectSponsorship (DescString s) t)) \<and>
      ''sponsored'' \<in> set (adIndicators (detectSponsorship (DescString s) t))) \<and>
   (\<forall>k1 k2. k1 \<in> set sponsorKeywords \<and> k2 \<in> set sponsorKeywords \<and> includesStr k2 k1 \<and>
      includesStr (toLowerCase s) k2 \<longrightarrow>
      k1 \<in> set (adIndicators (detectSponsorship (DescString s) t)))"
proof (intro conjI impI allI)
  assume h: "includesStr (toLowerCase s) ''sponsored''"
  have sub: "includesStr ''sponsored'' ''sponsor''" by code_simp
  have m1: "''sponsor'' \<in> set sponsorKeywords" and m2: "''sponsored'' \<in> set sponsorKeywords"
    by (simp_all add: sponsorKeywords_def)
  from detect_records_keyword [OF m1 includesStr_trans [OF h sub]]
  show "''sponsor'' \<in> set (adIndicators (detectSponsorship (DescString s) t))" .
  from detect_records_keyword [OF m2 h]
  show "''sponsored'' \<in> set (adIndicators (detectSponsorship (DescString s) t))" .
next
  fix k1 k2
  assume h: "k1 \<in> set sponsorKeywords \<and> k2 \<in> set sponsorKeywords \<and> includesStr k2 k1 \<and>
      includesStr (toLowerCase s) k2"
  then have "includesStr (toLowerCase s) k1" using includesStr_trans by blast
  with h show "k1 \<in> set (adIndicators (detectSponsorship (DescString s) t))"
    using detect_records_keyword by blast
qed

theorem detectSponsorship_records_contained_phrases_witness:
  "includesStr (toLowerCase ''Sponsored'') ''sponsored'' \<and>
   ''sponsor'' \<in> set (adIndicators (detectSponsorship (DescString ''Sponsored'') (TagsArray []))) \<and>
   ''sponsored'' \<in> set (adIndicators (detectSponsorship (DescString ''Sponsored'') (TagsArray [])))"
proof -
  have h: "includesStr (toLowerCase ''Sponsored'') ''sponsored''" by code_simp
  from detectSponsorship_records_contained_phrases [of "''Sponsored''" "TagsArray []"] h
  show ?thesis by blast
qed

subsection \<open>Absent arguments\<close>

text \<open>
  Claim C10: with a description that is \<^verbatim>\<open>null\<close> or \<^verbatim>\<open>undefined\<close> and tags that
  are \<^verbatim>\<open>null\<close>, \<^verbatim>\<open>undefined\<close> or not an array, \<open>detectSponsorship\<close> returns the
  empty result. No branch that reads the arguments is entered, so nothing can throw.
\<close>

theorem detectSponsorship_absent_arguments:
  assumes "d = DescNull \<or> d = DescUndefined"
    and "t = TagsNull \<or> t = TagsUndefined \<or> (\<exists>v. t = TagsNonArray v)"
  shows "detectSponsorship d t =
           \<lparr>hasSponsorship = False, sponsorshipDetails = [], adIndicators = [],
            detectedBrands = [], adDuration = None\<rparr>"
  using assms by (auto simp: detectSponsorship_def Let_def trim_def dedupe_def)

theorem detectSponsorship_absent_arguments_witness:
  "detectSponsorship DescNull (TagsNonArray (NAString ''ad'')) =
     \<lparr>hasSponsorship = False, sponsorshipDetails = [], adIndicators = [],
      detectedBrands = [], adDuration = None\<rparr>"
  using detectSponsorship_absent_arguments [of DescNull "TagsNonArray (NAString ''ad'')"]
  by blast

section \<open>Engagement and effectiveness\<close>

text \<open>
  Claim C5: \<open>calculateEngagementMetrics\<close> returns four zeros when the view count is
  not positive; otherwise the like and comment ratios are \<open>100 * like / view\<close> and
  \<open>100 * comment / view\<close>, the overall rate is \<open>100 * (like + comment) / view\<close>, and
  the raw effectiveness score is 0.7 times the like ratio plus 0.3 times the comment
  ratio. For the counts (0, 5, 2) all fields are zero, and for (1000, 50, 10) the three
  rates are 5, 1 and 6.
\<close>

theorem calculateEngagementMetrics_formulas:
  "(viewCount \<le> 0 \<longrightarrow>
      calculateEngagementMetrics viewCount likeCount commentCount =
        \<lparr>likeToViewRatio = 0, commentToViewRatio = 0, overallEngagementRate = 0,
         adEffectivenessScore = 0\<rparr>) \<and>
   (viewCount > 0 \<longrightarrow>
      likeToViewRatio (calculateEngagementMetrics viewCount likeCount commentCount) =
        100 * likeCount / viewCount \<and>
      commentToViewRatio (calculateEngagementMetrics viewCount likeCount commentCount) =
        100 * commentCount / viewCount \<and>
      overallEngagementRate (calculateEngagementMetrics viewCount likeCount commentCount) =
        100 * (likeCount + commentCount) / viewCount \<and>
      adEffectivenessScore (calculateEngagementMetrics viewCount likeCount commentCount) =
        0.7 * likeToViewRatio (calculateEngagementMetrics viewCount likeCount commentCount) +
        0.3 * commentToViewRatio (calculateEngagementMetrics viewCount likeCount commentCount)) \<and>
   calculateEngagementMetrics 0 5 2 =
     \<lparr>likeToViewRatio = 0, commentToViewRatio = 0, overallEngagementRate = 0,
      adEffectivenessScore = 0\<rparr> \<and>
   likeToViewRatio (calculateEngagementMetrics 1000 50 10) = 5 \<and>
   commentToViewRatio (calculateEngagementMetrics 1000 50 10) = 1 \<and>
   overallEngagementRate (calculateEngagementMetrics 1000 50 10) = 6"
  by (simp add: calculateEngagementMetrics_def Let_def)

theorem calculateEngagementMetrics_formulas_witness:
  "calculateEngagementMetrics (- 3) 5 2 =
     \<lparr>likeToViewRatio = 0, commentToViewRatio = 0, overallEngagementRate = 0,
      adEffectivenessScore = 0\<rparr> \<and>
   likeToViewRatio (calculateEngagementMetrics 200 30 4) = 15 \<and>
   commentToViewRatio (calculateEngagementMetrics 200 30 4) = 2 \<and>
   overallEngagementRate (calculateEngagementMetrics 200 30 4) = 17 \<and>
   adEffectivenessScore (calculateEngagementMetrics 200 30 4) = 11.1"
  using calculateEngagementMetrics_formulas [of "- 3" 5 2] calculateEngagementMetrics_formulas [of 200 30 4] by simp

text \<open>
  Under the hypotheses of claim C7 the weighted sum lies in \<open>[0, 100]\<close> already, so the
  final clamp changes nothing.
\<close>

lemma calculateAdEffectiveness_unclamped:
  assumes "0 \<le> adEffectivenessScore metrics"
    and "0 \<le> positivePercentage summary" and "positivePercentage summary \<le> 100"
    and "0 \<le> negativePercentage summary" and "negativePercentage summary \<le> 100"
  shows "calculateAdEffectiveness metrics summary =
             0.5 * min (10 * adEffectivenessScore metrics) 100 +
              0.5 * ((positivePercentage summary - negativePercentage summary + 100) / 2)"
proof -
  define ne where "ne = min (10 * adEffectivenessScore metrics) 100"
  define st where "st = (positivePercentage summary - negativePercentage summary + 100) / 2"
  have ne: "0 \<le> ne" "ne \<le> 100" using assms(1) by (simp_all add: ne_def)
  have st: "0 \<le> st" "st \<le> 100" using assms(2-5) by (simp_all add: st_def)
  have raw: "0 \<le> 0.5 * ne + 0.5 * st" "0.5 * ne + 0.5 * st \<le> 100"
    using ne st by simp_all
  have "calculateAdEffectiveness metrics summary = max 0 (min 100 (0.5 * ne + 0.5 * st))"
    by (simp add: calculateAdEffectiveness_def Let_def ne_def st_def mult.commute)
  also have "\<dots> = 0.5 * ne + 0.5 * st" using raw by simp
  finally show ?thesis by (simp add: ne_def st_def)
qed

text \<open>
  Claim C7: for an engagement record with a non-negative raw score and a sentiment
  summary whose positive and negative percentages lie in \<open>[0, 100]\<close>, the score is
  \<open>0.5 * min (10 * raw) 100 + 0.5 * ((positive - negative + 100) / 2)\<close> clamped to
  \<open>[0, 100]\<close>, and it lies in \<open>[0, 100]\<close>.
\<close>

theorem calculateAdEffectiveness_bounded:
  assumes "0 \<le> adEffectivenessScore metrics"
    and "0 \<le> positivePercentage summary" and "positivePercentage summary \<le> 100"
    and "0 \<le> negativePercentage summary" and "negativePercentage summary \<le> 100"
  shows "calculateAdEffectiveness metrics summary =
           max 0 (min 100
             (0.5 * min (10 * adEffectivenessScore metrics) 100 +
              0.5 * ((positivePercentage summary - negativePercentage summary + 100) / 2))) \<and>
         0 \<le> calculateAdEffectiveness metrics summary \<and>
         calculateAdEffectiveness metrics summary \<le> 100"
  by (simp add: calculateAdEffectiveness_def Let_def mult.commute)

theorem calculateAdEffectiveness_bounded_witness:
  "calculateAdEffectiveness
     \<lparr>likeToViewRatio = 5, commentToViewRatio = 1, overallEngagementRate = 6,
      adEffectivenessScore = 3.8\<rparr>
     \<lparr>averageSentiment = 0.2, positivePercentage = 60, negativePercentage = 10,
      neutralPercentage = 30, totalComments = Some 10, keywordSentiment = Some []\<rparr> = 56.5"
  using calculateAdEffectiveness_bounded [of "\<lparr>likeToViewRatio = 5, commentToViewRatio = 1, overallEngagementRate = 6,
      adEffectivenessScore = 3.8\<rparr>"
     "\<lparr>averageSentiment = 0.2, positivePercentage = 60, negativePercentage = 10,
      neutralPercentage = 30, totalComments = Some 10, keywordSentiment = Some []\<rparr>"]
  by simp

section \<open>Sentiment percentages\<close>

lemma orZero_id: "orZero x = x"
  by (simp add: orZero_def)

lemma commentStep_counts:
  "positiveCount (commentStep lib c acc) =
     positiveCount acc + (if sentimentScoreOf lib c > 0.05 then 1 else 0)"
  "negativeCount (commentStep lib c acc) =
     negativeCount acc +
       (if \<not> sentimentScoreOf lib c > 0.05 \<and> sentimentScoreOf lib c < - 0.05 then 1 else 0)"
  "neutralCount (commentStep lib c acc) =
     neutralCount acc +
       (if \<not> sentimentScoreOf lib c > 0.05 \<and> \<not> sentimentScoreOf lib c < - 0.05 then 1 else 0)"
  "totalSentiment (commentStep lib c acc) = totalSentiment acc + sentimentScoreOf lib c"
  by (simp_all add: commentStep_def Let_def)

lemma fold_commentStep_counts:
  "positiveCount (fold (commentStep lib) cs acc) =
     positiveCount acc + length (filter (\<lambda>c. sentimentScoreOf lib c > 0.05) cs) \<and>
   negativeCount (fold (commentStep lib) cs acc) =
     negativeCount acc +
       length (filter (\<lambda>c. \<not> sentimentScoreOf lib c > 0.05 \<and> sentimentScoreOf lib c < - 0.05) cs) \<and>
   neutralCount (fold (commentStep lib) cs acc) =
     neutralCount acc +
       length (filter (\<lambda>c. \<not> sentimentScoreOf lib c > 0.05 \<and> \<not> sentimentScoreOf lib c < - 0.05) cs) \<and>
   totalSentiment (fold (commentStep lib) cs acc) =
     totalSentiment acc + sum_list (map (sentimentScoreOf lib) cs)"
proof (induction cs arbitrary: acc)
  case Nil
  show ?case by simp
next
  case (Cons c cs)
  show ?case
    using Cons.IH [of "commentStep lib c acc"]
    by (simp add: commentStep_counts)
qed

lemma three_way_partition:
  "length (filter P xs) + length (filter (\<lambda>x. \<not> P x \<and> Q x) xs) +
   length (filter (\<lambda>x. \<not> P x \<and> \<not> Q x) xs) = length xs"
  by (induction xs) auto

lemma percentages_sum:
  fixes a b c n :: nat
  assumes "a + b + c = n" and "n > 0"
  shows "real a / real n * 100 + real b / real n * 100 + real c / real n * 100 = 100"
proof -
  have "real a / real n * 100 + real b / real n * 100 + real c / real n * 100 =
        (real a + real b + real c) / real n * 100"
    by (simp add: add_divide_distrib distrib_right)
  also have "real a + real b + real c = real n" using assms(1) by (simp flip: of_nat_add)
  also have "real n / real n * 100 = 100" using assms(2) by simp
  finally show ?thesis .
qed

text \<open>
  Claim C6: the analysis of no comments is the all-zero summary with
  \<open>totalComments = 0\<close>. For a list of comments that is not empty, a comment counts as
  positive when its score exceeds 0.05, as negative when it is below -0.05 and as
  neutral otherwise; each percentage is the share of its class, and the three
  percentages add up to 100 (in exact arithmetic, with no rounding error).
\<close>

theorem analyzeCommentSentiment_percentages:
  "analyzeCommentSentiment lib [] =
     \<lparr>averageSentiment = 0, positivePercentage = 0, negativePercentage = 0,
      neutralPercentage = 0, totalComments = Some 0, keywordSentiment = Some []\<rparr> \<and>
   (cs \<noteq> [] \<longrightarrow>
      positivePercentage (analyzeCommentSentiment lib cs) =
        real (length (filter (\<lambda>c. sentimentScoreOf lib c > 0.05) cs)) / real (length cs) * 100 \<and>
      negativePercentage (analyzeCommentSentiment lib cs) =
        real (length (filter (\<lambda>c. \<not> sentimentScoreOf lib c > 0.05 \<and>
                                   sentimentScoreOf lib c < - 0.05) cs)) / real (length cs) * 100 \<and>
      neutralPercentage (analyzeCommentSentiment lib cs) =
        real (length (filter (\<lambda>c. \<not> sentimentScoreOf lib c > 0.05 \<and>
                                   \<not> sentimentScoreOf lib c < - 0.05) cs)) / real (length cs) * 100 \<and>
      positivePercentage (analyzeCommentSentiment lib cs) +
      negativePercentage (analyzeCommentSentiment lib cs) +
      neutralPercentage (analyzeCommentSentiment lib cs) = 100 \<and>
      totalComments (analyzeCommentSentiment lib cs) = Some (length cs))"
proof (intro conjI impI)
  show "analyzeCommentSentiment lib [] =
     \<lparr>averageSentiment = 0, positivePercentage = 0, negativePercentage = 0,
      neutralPercentage = 0, totalComments = Some 0, keywordSentiment = Some []\<rparr>"
    by (simp add: analyzeCommentSentiment_def)
next
  assume ne: "cs \<noteq> []"
  let ?start = "\<lparr>totalSentiment = 0, positiveCount = 0, negativeCount = 0,
                 neutralCount = 0, keywordAcc = []\<rparr>"
  note counts = fold_commentStep_counts [of lib cs ?start]
  from ne have n: "length cs > 0" by simp
  show p: "positivePercentage (analyzeCommentSentiment lib cs) =
        real (length (filter (\<lambda>c. sentimentScoreOf lib c > 0.05) cs)) / real (length cs) * 100"
    using ne counts by (simp add: analyzeCommentSentiment_def Let_def orZero_id)
  show q: "negativePercentage (analyzeCommentSentiment lib cs) =
        real (length (filter (\<lambda>c. \<not> sentimentScoreOf lib c > 0.05 \<and>
                                   sentimentScoreOf lib c < - 0.05) cs)) / real (length cs) * 100"
    using ne counts by (simp add: analyzeCommentSentiment_def Let_def orZero_id)
  show r: "neutralPercentage (analyzeCommentSentiment lib cs) =
        real (length (filter (\<lambda>c. \<not> sentimentScoreOf lib c > 0.05 \<and>
                                   \<not> sentimentScoreOf lib c < - 0.05) cs)) / real (length cs) * 100"
    using ne counts by (simp add: analyzeCommentSentiment_def Let_def orZero_id)
  show "positivePercentage (analyzeCommentSentiment lib cs) +
      negativePercentage (analyzeCommentSentiment lib cs) +
      neutralPercentage (analyzeCommentSentiment lib cs) = 100"
    unfolding p q r
    by (rule percentages_sum [OF three_way_partition n])
  show "totalComments (analyzeCommentSentiment lib cs) = Some (length cs)"
    using ne by (simp add: analyzeCommentSentiment_def Let_def)
qed


theorem analyzeCommentSentiment_percentages_witness:
  "positivePercentage (analyzeCommentSentiment
      \<lparr>tokenize = (\<lambda>s. [s]), getSentiment = (\<lambda>ts. if ts = [''great''] then Some 1 else None)\<rparr>
      [\<lparr>commentId = ''c1'', commentText = ''great''\<rparr>, \<lparr>commentId = ''c2'', commentText = ''fine''\<rparr>]) = 50 \<and>
   positivePercentage (analyzeCommentSentiment
      \<lparr>tokenize = (\<lambda>s. [s]), getSentiment = (\<lambda>ts. if ts = [''great''] then Some 1 else None)\<rparr>
      [\<lparr>commentId = ''c1'', commentText = ''great''\<rparr>, \<lparr>commentId = ''c2'', commentText = ''fine''\<rparr>]) +
   negativePercentage (analyzeCommentSentiment
      \<lparr>tokenize = (\<lambda>s. [s]), getSentiment = (\<lambda>ts. if ts = [''great''] then Some 1 else None)\<rparr>
      [\<lparr>commentId = ''c1'', commentText = ''great''\<rparr>, \<lparr>commentId = ''c2'', commentText = ''fine''\<rparr>]) +
   neutralPercentage (analyzeCommentSentiment
      \<lparr>tokenize = (\<lambda>s. [s]), getSentiment = (\<lambda>ts. if ts = [''great''] then Some 1 else None)\<rparr>
      [\<lparr>commentId = ''c1'', commentText = ''great''\<rparr>, \<lparr>commentId = ''c2'', commentText = ''fine''\<rparr>]) = 100"
  using analyzeCommentSentiment_percentages
    [where lib = "\<lparr>tokenize = (\<lambda>s. [s]),
                    getSentiment = (\<lambda>ts. if ts = [''great''] then Some 1 else None)\<rparr>"
       and cs = "[\<lparr>commentId = ''c1'', commentText = ''great''\<rparr>,
                  \<lparr>commentId = ''c2'', commentText = ''fine''\<rparr>]"]
  by (simp add: sentimentScoreOf_def orZero_def)

section \<open>The composed analysis\<close>

text \<open>
  Claim C3: when the generative service fails, \<open>analyzeVideoContent\<close> returns the
  insight text \<^verbatim>\<open>Analysis failed\<close>, the ad style \<^verbatim>\<open>Unknown\<close>, the effectiveness 0
  and a sentiment object with four zero fields. The claim also promises
  \<open>totalComments = 0\<close> and an empty \<open>keywordSentiment\<close>, as the analysis of no
  comments returns them; the object of the \<^verbatim>\<open>catch\<close> block has neither property.
\<close>

theorem analyzeVideoContent_failure_result:
  "analyzeVideoContent lib (\<lambda>p. Inl e) videoData comments =
     \<lparr>aiInsights = ''Analysis failed'', adStyle = ''Unknown'', adEffectiveness = 0,
      adSentiment = \<lparr>averageSentiment = 0, positivePercentage = 0, negativePercentage = 0,
                     neutralPercentage = 0, totalComments = None, keywordSentiment = None\<rparr>\<rparr> \<and>
   totalComments (adSentiment (analyzeVideoContent lib (\<lambda>p. Inl e) videoData comments)) \<noteq>
     totalComments (analyzeCommentSentiment lib []) \<and>
   keywordSentiment (adSentiment (analyzeVideoContent lib (\<lambda>p. Inl e) videoData comments)) \<noteq>
     keywordSentiment (analyzeCommentSentiment lib [])"
  by (simp add: analyzeVideoContent_def analysisFailed_def analyzeCommentSentiment_def
      split: option.splits)

theorem analyzeVideoContent_failure_result_witness:
  "aiInsights (analyzeVideoContent (library exampleEnv) (\<lambda>p. Inl (Error ''quota exceeded''))
     \<lparr>title = ''Review'', description = Some ''Sponsored by Acme'', tags = Some [],
      sponsorshipInfo = detectSponsorship (DescString ''Sponsored by Acme'') (TagsArray []),
      engagementMetrics = calculateEngagementMetrics 0 0 0\<rparr> []) = ''Analysis failed'' \<and>
   totalComments (adSentiment (analyzeVideoContent (library exampleEnv)
     (\<lambda>p. Inl (Error ''quota exceeded''))
     \<lparr>title = ''Review'', description = Some ''Sponsored by Acme'', tags = Some [],
      sponsorshipInfo = detectSponsorship (DescString ''Sponsored by Acme'') (TagsArray []),
      engagementMetrics = calculateEngagementMetrics 0 0 0\<rparr> [])) = None"
  using analyzeVideoContent_failure_result [where lib = "library exampleEnv" and e = "Error ''quota exceeded''"
     and videoData = "\<lparr>title = ''Review'', description = Some ''Sponsored by Acme'', tags = Some [],
      sponsorshipInfo = detectSponsorship (DescString ''Sponsored by Acme'') (TagsArray []),
      engagementMetrics = calculateEngagementMetrics 0 0 0\<rparr>" and comments = "[]"]
  by simp


text \<open>
  What the code does with the duration: it is used when it is truthy, so a number other
  than zero. A duration of zero, like a missing one, hands the decision to the reply.
\<close>

lemma resolveAdStyle_cases:
  "resolveAdStyle info insights =
     (if \<not> hasSponsorship info then ''Unknown''
      else (case adDuration info of
              Some (Num n) \<Rightarrow>
                if n \<noteq> 0 then (if n > 60 then ''Long-form'' else ''Short-form'')
                else if includesStr (toLowerCase insights) ''long-form'' then ''Long-form''
                else if includesStr (toLowerCase insights) ''short-form'' then ''Short-form''
                else ''Unknown''
            | _ \<Rightarrow>
                if includesStr (toLowerCase insights) ''long-form'' then ''Long-form''
                else if includesStr (toLowerCase insights) ''short-form'' then ''Short-form''
                else ''Unknown''))"
  by (simp add: resolveAdStyle_def split: option.splits jsnum.splits)

lemma detect_zero_duration:
  "detectSponsorship (DescString ''1:00 - 1:00 ad'') (TagsArray []) =
     \<lparr>hasSponsorship = True, sponsorshipDetails = ''Ad segment detected at 1:00.'',
      adIndicators = [''timestamp indicator''], detectedBrands = [],
      adDuration = Some (Num 0)\<rparr>"
  by code_simp

lemma reply_mentions_long_form:
  "includesStr (toLowerCase (trim ''A long-form read.'')) ''long-form''"
  by code_simp

text \<open>
  Claim C8 says that a numeric duration decides the ad style, whatever the reply says:
  at most 60 seconds is \<^verbatim>\<open>Short-form\<close>. For the description
  \<^verbatim>\<open>1:00 - 1:00 ad\<close> sponsorship is detected with the numeric duration 0, the test
  \<^verbatim>\<open>if (sponsorshipInfo.adDuration)\<close> is false, and a reply that mentions
  \<^verbatim>\<open>long-form\<close> makes the ad style \<^verbatim>\<open>Long-form\<close>.
\<close>

theorem adStyle_ignores_zero_duration:
  "detectSponsorship (DescString ''1:00 - 1:00 ad'') (TagsArray []) =
     \<lparr>hasSponsorship = True, sponsorshipDetails = ''Ad segment detected at 1:00.'',
      adIndicators = [''timestamp indicator''], detectedBrands = [],
      adDuration = Some (Num 0)\<rparr> \<and>
   adStyle (analyzeVideoContent lib (\<lambda>p. Inr ''A long-form read.'')
     \<lparr>title = ''Review'', description = Some ''1:00 - 1:00 ad'', tags = Some [],
      sponsorshipInfo = detectSponsorship (DescString ''1:00 - 1:00 ad'') (TagsArray []),
      engagementMetrics = calculateEngagementMetrics 1000 50 10\<rparr> comments) = ''Long-form''"
  by (simp add: detect_zero_duration reply_mentions_long_form analyzeVideoContent_def
      resolveAdStyle_def Let_def)

section \<open>The channel batch\<close>

lemma processVideo_eq:
  "processVideo pipeline video results =
     results\<lparr>processed := processed results + (if videoFails pipeline video then 0 else 1),
             failed := failed results + (if videoFails pipeline video then 1 else 0),
             reports := reports results @ [recordedItem pipeline video]\<rparr>"
  by (simp add: processVideo_def videoFails_def recordedItem_def
      split: sum.splits report_result.splits)

lemma fold_processVideo:
  "total (fold (processVideo pipeline) videos results) = total results \<and>
   processed (fold (processVideo pipeline) videos results) =
     processed results + length (filter (\<lambda>v. \<not> videoFails pipeline v) videos) \<and>
   failed (fold (processVideo pipeline) videos results) =
     failed results + length (filter (videoFails pipeline) videos) \<and>
   reports (fold (processVideo pipeline) videos results) =
     reports results @ map (recordedItem pipeline) videos"
proof (induction videos arbitrary: results)
  case Nil
  show ?case by simp
next
  case (Cons v vs)
  show ?case
    using Cons.IH [where results = "processVideo pipeline v results"]
    by (simp add: processVideo_eq)
qed

lemma filter_complement_length:
  "length (filter (\<lambda>x. \<not> P x) xs) = length xs - length (filter P xs)"
  using sum_length_filter_compl [of P xs] by simp

text \<open>
  Claim C4: for a channel with \<open>n > 0\<close> videos of which \<open>k\<close> fail, the batch succeeds
  with \<open>total = n\<close>, \<open>failed = k\<close>, \<open>processed = n - k\<close> and one entry per video in
  \<open>reports\<close>, in order, each with the identity of its video, its success flag and,
  for a failure, the error. For a channel without videos the batch is the failure
  \<^verbatim>\<open>No videos found for this channel\<close>. The pipeline is arbitrary: it may answer with
  a failure or reject for any video.
\<close>

theorem generateChannelAdInsights_counts:
  "(findVideos channelId = Inr videos \<and> videos \<noteq> [] \<longrightarrow>
      (\<exists>r. generateChannelAdInsights pipeline findVideos channelId = BatchSuccess r \<and>
           total r = length videos \<and>
           failed r = length (filter (videoFails pipeline) videos) \<and>
           processed r = length videos - length (filter (videoFails pipeline) videos) \<and>
           reports r = map (recordedItem pipeline) videos)) \<and>
   (findVideos channelId = Inr [] \<longrightarrow>
      generateChannelAdInsights pipeline findVideos channelId =
        BatchFailure ''No videos found for this channel'') \<and>
   (\<forall>v. itemVideoId (recordedItem pipeline v) = videoId v \<and>
        itemSuccess (recordedItem pipeline v) = (\<not> videoFails pipeline v) \<and>
        (videoFails pipeline v \<longrightarrow> itemError (recordedItem pipeline v) \<noteq> None))"
proof (intro conjI impI allI)
  assume h: "findVideos channelId = Inr videos \<and> videos \<noteq> []"
  let ?init = "\<lparr>total = length videos, processed = 0, failed = 0, reports = []\<rparr>"
  let ?r = "fold (processVideo pipeline) videos ?init"
  from h have "generateChannelAdInsights pipeline findVideos channelId = BatchSuccess ?r"
    by (simp add: generateChannelAdInsights_def)
  moreover from fold_processVideo [where pipeline = pipeline and videos = videos and results = ?init]
  have "total ?r = length videos"
    and "failed ?r = length (filter (videoFails pipeline) videos)"
    and "processed ?r = length videos - length (filter (videoFails pipeline) videos)"
    and "reports ?r = map (recordedItem pipeline) videos"
    by (simp_all add: filter_complement_length)
  ultimately show "\<exists>r. generateChannelAdInsights pipeline findVideos channelId = BatchSuccess r \<and>
           total r = length videos \<and>
           failed r = length (filter (videoFails pipeline) videos) \<and>
           processed r = length videos - length (filter (videoFails pipeline) videos) \<and>
           reports r = map (recordedItem pipeline) videos"
    by blast
next
  assume "findVideos channelId = Inr []"
  then show "generateChannelAdInsights pipeline findVideos channelId =
        BatchFailure ''No videos found for this channel''"
    by (simp add: generateChannelAdInsights_def)
next
  fix v
  show "itemVideoId (recordedItem pipeline v) = videoId v"
    by (simp add: recordedItem_def)
  show "itemSuccess (recordedItem pipeline v) = (\<not> videoFails pipeline v)"
    by (simp add: recordedItem_def videoFails_def split: sum.splits report_result.splits)
  assume "videoFails pipeline v"
  then show "itemError (recordedItem pipeline v) \<noteq> None"
    by (simp add: recordedItem_def videoFails_def split: sum.splits report_result.splits)
qed

theorem generateChannelAdInsights_counts_witness:
  "\<exists>r. channelAdInsights exampleEnv
          (\<lambda>c. Inr [\<lparr>videoId = ''v1'', docTitle = ''One''\<rparr>, \<lparr>videoId = ''v2'', docTitle = ''Two''\<rparr>,
                     \<lparr>videoId = ''v3'', docTitle = ''Three''\<rparr>]) ''UC1'' = BatchSuccess r \<and>
       total r = 3 \<and> processed r = 2 \<and> failed r = 1 \<and>
       map itemVideoId (reports r) = [''v1'', ''v2'', ''v3''] \<and>
       map itemSuccess (reports r) = [True, False, True] \<and>
       map itemError (reports r) = [None, Some ''Video not found'', None]"
proof -
  let ?vs = "[\<lparr>videoId = ''v1'', docTitle = ''One''\<rparr>, \<lparr>videoId = ''v2'', docTitle = ''Two''\<rparr>,
              \<lparr>videoId = ''v3'', docTitle = ''Three''\<rparr>]"
  let ?p = "\<lambda>v. Inr (generateAdInsightsReport exampleEnv v) :: js_error + report_result"
  have v1: "\<exists>r. generateAdInsightsReport exampleEnv ''v1'' = ReportSuccess r"
    by (simp add: generateAdInsightsReport_def exampleEnv_def)
  have v2: "generateAdInsightsReport exampleEnv ''v2'' = ReportFailure ''Video not found''"
    by (simp add: generateAdInsightsReport_def exampleEnv_def)
  have v3: "\<exists>r. generateAdInsightsReport exampleEnv ''v3'' = ReportSuccess r"
    by (simp add: generateAdInsightsReport_def exampleEnv_def)
  from generateChannelAdInsights_counts [where findVideos = "\<lambda>c. Inr ?vs" and channelId = "''UC1''" and videos = ?vs
      and pipeline = ?p]
  obtain r where r: "generateChannelAdInsights ?p (\<lambda>c. Inr ?vs) ''UC1'' = BatchSuccess r"
    "total r = length ?vs" "failed r = length (filter (videoFails ?p) ?vs)"
    "processed r = length ?vs - length (filter (videoFails ?p) ?vs)"
    "reports r = map (recordedItem ?p) ?vs"
    by auto
  from v1 v2 v3 have f: "filter (videoFails ?p) ?vs = [\<lparr>videoId = ''v2'', docTitle = ''Two''\<rparr>]"
    by (auto simp: videoFails_def)
  from v1 v2 v3 have i: "map itemSuccess (map (recordedItem ?p) ?vs) = [True, False, True]"
    "map itemError (map (recordedItem ?p) ?vs) = [None, Some ''Video not found'', None]"
    "map itemVideoId (map (recordedItem ?p) ?vs) = [''v1'', ''v2'', ''v3'']"
    by (auto simp: recordedItem_def)
  from r f i show ?thesis
    by (simp add: channelAdInsights_def)
qed


end
